theory Spec2Isabelle
  imports Complex_Main "HOL-Library.Sublist"
begin

section \<open>Data model\<close>

text \<open>
  The embedding follows \<^verbatim>\<open>src/background/main.ts\<close>, the class \<^verbatim>\<open>DownloadManager\<close>.
  A \<^verbatim>\<open>chrome.downloads.DownloadItem\<close> is a record of the fields the class reads. The
  fields \<^verbatim>\<open>error\<close>, \<^verbatim>\<open>bytesReceived\<close> and \<^verbatim>\<open>fileSize\<close> may be absent (\<open>None\<close>).
  Byte counts are JavaScript numbers that hold integers; they are modelled as
  mathematical integers (sums of byte counts are exact below \<open>2^53\<close>). The field
  \<^verbatim>\<open>id\<close> is named \<open>ident\<close> here.
\<close>

datatype State = in_progress | interrupted | complete

record DownloadItem =
  ident :: nat
  state :: State
  paused :: bool
  error :: "string option"
  bytesReceived :: "int option"
  fileSize :: "int option"

text \<open>
  \<^verbatim>\<open>DownloadDelta\<close>: the id (\<open>delta_ident\<close>) and, when the state changed, the old and
  the new value of the state (\<open>delta_state\<close>).
\<close>

record StringDelta =
  current :: "State option"
  previous :: "State option"

record DownloadDelta =
  delta_ident :: nat
  delta_state :: "StringDelta option"

text \<open>
  Modelled from the spec: the enumerations \<^verbatim>\<open>Message\<close> (module \<^verbatim>\<open>@/common\<close>) and
  \<^verbatim>\<open>Color\<close> (module \<^verbatim>\<open>./draw\<close>) are declared outside the source file. The spec gives
  the closed sets: messages Ping, StatusCheck, PopupOpened; colors Normal, Paused,
  Complete, Error.
\<close>

datatype Message = Ping | StatusCheck | PopupOpened

datatype Color = Normal | Paused | Complete | Error

text \<open>
  The value of the JavaScript division \<^verbatim>\<open>num / den\<close> on integer-valued numbers: a
  finite quotient (kept exact here; rounding to a double is not modelled), or one of
  the special values that division by zero produces.
\<close>

datatype number = Finite rat | NaN | PosInfinity | NegInfinity

definition divide_js :: "int \<Rightarrow> int \<Rightarrow> number" where
  "divide_js n d =
     (if d = 0 then (if n = 0 then NaN else if 0 < n then PosInfinity else NegInfinity)
      else Finite (rat_of_int n / rat_of_int d))"

text \<open>The pair \<^verbatim>\<open>{ num, den }\<close> returned by \<^verbatim>\<open>computePercentage\<close> and summed by the reduce.\<close>

record Percentage =
  num :: int
  den :: int

text \<open>The two filters that \<^verbatim>\<open>search\<close> is called with.\<close>

datatype filter = ById nat | ByState State

datatype exn = TypeError

text \<open>What the manager does to the outside, in the order it does it.\<close>

datatype effect =
    SetShelfEnabled bool
  | SendMessage Message
  | Query filter
  | Draw "Color option" "number option"
  | Log string
  | Rejected exn

text \<open>
  The fields \<^verbatim>\<open>timer\<close> and \<^verbatim>\<open>unchecked\<close> of the manager, together with the part of
  the platform it acts on: the interval timers that are live (\<open>intervals\<close>), the next
  handle \<^verbatim>\<open>setInterval\<close> returns (\<open>fresh\<close>), and the effects so far (\<open>out\<close>).
  The field \<^verbatim>\<open>unchecked\<close> is named \<open>uncheckedItems\<close> here; an element of it is
  \<open>None\<close> when \<^verbatim>\<open>undefined\<close> was pushed.
\<close>

record world =
  timer :: "nat option"
  uncheckedItems :: "DownloadItem option list"
  intervals :: "nat list"
  fresh :: nat
  out :: "effect list"

section \<open>Asynchronous functions\<close>

text \<open>
  An \<^verbatim>\<open>async\<close> method runs until it returns, throws, or reaches an \<^verbatim>\<open>await\<close> of a
  \<^verbatim>\<open>search\<close>. At an \<^verbatim>\<open>await\<close> it is suspended: \<open>Await w f k\<close> holds the world \<open>w\<close>
  it leaves behind, the filter \<open>f\<close> it asked for, and its continuation \<open>k\<close>, which
  gets the result of the query and the world as it is when the method is resumed
  (other handlers may have run in between).
\<close>

datatype task =
    Done world
  | Fail exn world
  | Await world filter "DownloadItem list \<Rightarrow> world \<Rightarrow> task"

definition emit :: "effect \<Rightarrow> world \<Rightarrow> world" where
  "emit e w = w\<lparr>out := out w @ [e]\<rparr>"

definition sendMessage :: "Message \<Rightarrow> world \<Rightarrow> world" where
  "sendMessage m w = emit (SendMessage m) w"

text \<open>
  Modelled from the spec: \<^verbatim>\<open>search\<close> (module \<^verbatim>\<open>@/common\<close>) is not in the source file.
  The spec gives \<^verbatim>\<open>search(filter) -> list of DownloadRecord\<close>, asynchronous. The call
  is recorded as an effect; the list is supplied by the download source when the
  query resolves.
\<close>

definition search :: "filter \<Rightarrow> (DownloadItem list \<Rightarrow> world \<Rightarrow> task) \<Rightarrow> world \<Rightarrow> task" where
  "search f k w = Await (emit (Query f) w) f k"

definition setInterval :: "world \<Rightarrow> nat \<times> world" where
  "setInterval w = (fresh w, w\<lparr>intervals := intervals w @ [fresh w], fresh := Suc (fresh w)\<rparr>)"

definition clearInterval :: "nat \<Rightarrow> world \<Rightarrow> world" where
  "clearInterval h w = w\<lparr>intervals := removeAll h (intervals w)\<rparr>"

subsection \<open>The event loop\<close>

text \<open>
  Handlers never run concurrently. A configuration is the world and the suspended
  methods. \<open>Call h\<close> runs a handler up to its first suspension; \<open>Resolve i r\<close> resolves
  the query of the \<open>i\<close>-th suspended method with the list \<open>r\<close> and runs it up to its
  next suspension. A method that throws is a rejected promise that nobody handles.
\<close>

type_synonym suspended = "filter \<times> (DownloadItem list \<Rightarrow> world \<Rightarrow> task)"

type_synonym conf = "world \<times> suspended list"

datatype event = Call "world \<Rightarrow> task" | Resolve nat "DownloadItem list"

fun settle :: "task \<Rightarrow> suspended list \<Rightarrow> conf" where
  "settle (Done w) ps = (w, ps)"
| "settle (Fail e w) ps = (emit (Rejected e) w, ps)"
| "settle (Await w f k) ps = (w, ps @ [(f, k)])"

fun step :: "event \<Rightarrow> conf \<Rightarrow> conf" where
  "step (Call h) (w, ps) = settle (h w) ps"
| "step (Resolve i r) (w, ps) =
     (if i < length ps then settle (snd (ps ! i) r w) (take i ps @ drop (Suc i) ps)
      else (w, ps))"

fun exec :: "event list \<Rightarrow> conf \<Rightarrow> conf" where
  "exec [] c = c"
| "exec (e # es) c = exec es (step e c)"

section \<open>The manager\<close>

subsection \<open>drawIcon\<close>

text \<open>
  \<^verbatim>\<open>Array.prototype.some\<close> with a callback that may throw: the elements are visited
  in order, the first \<^verbatim>\<open>true\<close> ends the visit, and so does an exception.
\<close>

fun array_some :: "('a \<Rightarrow> exn + bool) \<Rightarrow> 'a list \<Rightarrow> exn + bool" where
  "array_some p [] = Inr False"
| "array_some p (x # xs) =
     (case p x of
        Inl e \<Rightarrow> Inl e
      | Inr True \<Rightarrow> Inr True
      | Inr False \<Rightarrow> array_some p xs)"

text \<open>
  \<^verbatim>\<open>d => d.state == 'interrupted' && !d.error?.startsWith('USER_')\<close>. Reading
  \<^verbatim>\<open>d.state\<close> of \<^verbatim>\<open>undefined\<close> throws a TypeError. With no error code,
  \<^verbatim>\<open>d.error?.startsWith(...)\<close> is \<^verbatim>\<open>undefined\<close> and its negation is \<^verbatim>\<open>true\<close>.
\<close>

definition errored :: "DownloadItem option \<Rightarrow> exn + bool" where
  "errored d =
     (case d of
        None \<Rightarrow> Inl TypeError
      | Some d \<Rightarrow>
          Inr (state d = interrupted \<and>
               \<not> (case error d of None \<Rightarrow> False | Some e \<Rightarrow> prefix ''USER_'' e)))"

text \<open>\<^verbatim>\<open>c => c.state == 'complete'\<close>\<close>

definition succeeded :: "DownloadItem option \<Rightarrow> exn + bool" where
  "succeeded c = (case c of None \<Rightarrow> Inl TypeError | Some c \<Rightarrow> Inr (state c = complete))"

text \<open>
  The colour, lines 163 to 179. The active downloads come from a query, so none of
  them is \<^verbatim>\<open>undefined\<close> and \<^verbatim>\<open>item => item.paused\<close> cannot throw.
\<close>

definition color :: "DownloadItem option list \<Rightarrow> DownloadItem list \<Rightarrow> exn + Color" where
  "color us activeDownloads =
     (case array_some errored us of
        Inl e \<Rightarrow> Inl e
      | Inr True \<Rightarrow> Inr Error
      | Inr False \<Rightarrow>
          if list_ex paused activeDownloads then Inr Paused
          else (case array_some succeeded us of
                  Inl e \<Rightarrow> Inl e
                | Inr True \<Rightarrow> Inr Complete
                | Inr False \<Rightarrow> Inr Normal))"

text \<open>A byte count in a condition: an absent field and \<^verbatim>\<open>0\<close> are falsy.\<close>

definition truthy :: "int option \<Rightarrow> bool" where
  "truthy v = (case v of None \<Rightarrow> False | Some n \<Rightarrow> n \<noteq> 0)"

text \<open>
  The condition of the reduce's callback, line 191:
  \<^verbatim>\<open>!cur || !cur.bytesReceived || (!cur.bytesReceived && !cur.fileSize)\<close>.
\<close>

definition skipped :: "DownloadItem option \<Rightarrow> bool" where
  "skipped cur =
     (case cur of
        None \<Rightarrow> True
      | Some d \<Rightarrow>
          \<not> truthy (bytesReceived d) \<or> (\<not> truthy (bytesReceived d) \<and> \<not> truthy (fileSize d)))"

text \<open>
  The callback of the reduce, lines 188 to 199. \<^verbatim>\<open>computePercentage\<close> (module
  \<^verbatim>\<open>@/common\<close>) is not in the source file: it is the parameter \<open>cp\<close>.
\<close>

definition accumulate ::
  "(DownloadItem \<Rightarrow> Percentage) \<Rightarrow> Percentage \<Rightarrow> DownloadItem option \<Rightarrow> Percentage" where
  "accumulate cp acc cur =
     (if skipped cur then acc
      else (case cur of
              None \<Rightarrow> acc
            | Some d \<Rightarrow> \<lparr>num = num acc + num (cp d), den = den acc + den (cp d)\<rparr>))"

definition total :: "(DownloadItem \<Rightarrow> Percentage) \<Rightarrow> DownloadItem option list \<Rightarrow> Percentage" where
  "total cp allDownloads = foldl (accumulate cp) \<lparr>num = 0, den = 0\<rparr> allDownloads"

definition drawIcon :: "(DownloadItem \<Rightarrow> Percentage) \<Rightarrow> world \<Rightarrow> task" where
  "drawIcon cp w0 =
     search (ByState in_progress) (\<lambda>activeDownloads w.
       case color (uncheckedItems w) activeDownloads of
         Inl e \<Rightarrow> Fail e w
       | Inr c \<Rightarrow>
           if length activeDownloads > 0 then
             (let allDownloads = uncheckedItems w @ map Some activeDownloads;
                  t = total cp allDownloads
              in Done (emit (Draw (Some c) (Some (divide_js (num t) (den t)))) w))
           else Done (emit (Draw (Some c) None) w)) w0"

subsection \<open>The timer\<close>

definition stop :: "world \<Rightarrow> world" where
  "stop w =
     (case timer w of
        None \<Rightarrow> w
      | Some h \<Rightarrow> (clearInterval h (emit (Log ''Timer stopped'') w))\<lparr>timer := None\<rparr>)"

text \<open>The call \<^verbatim>\<open>this.drawIcon()\<close> is the last thing \<^verbatim>\<open>tick\<close> does, so it is a tail call.\<close>

definition tick :: "(DownloadItem \<Rightarrow> Percentage) \<Rightarrow> world \<Rightarrow> task" where
  "tick cp w0 =
     search (ByState in_progress) (\<lambda>activeDownloads w.
       if length activeDownloads > 0 then drawIcon cp (sendMessage Ping w)
       else Done (stop w)) w0"

definition start :: "(DownloadItem \<Rightarrow> Percentage) \<Rightarrow> world \<Rightarrow> task" where
  "start cp w0 =
     (if timer w0 \<noteq> None then Done w0
      else search (ByState in_progress) (\<lambda>activeDownloads w.
        if length activeDownloads \<le> 0 then Done w
        else (let w1 = emit (Log ''Timer started'') w;
                  (h, w2) = setInterval w1;
                  w3 = w2\<lparr>timer := Some h\<rparr>
              in tick cp w3)) w0)"

subsection \<open>The event handlers\<close>

definition onCreated :: "(DownloadItem \<Rightarrow> Percentage) \<Rightarrow> world \<Rightarrow> task" where
  "onCreated cp w = start cp (sendMessage Ping w)"

text \<open>
  \<^verbatim>\<open>const [ item ] = ...\<close> binds \<^verbatim>\<open>undefined\<close> when the list is empty. After the
  \<^verbatim>\<open>await\<close> the handler pushes to the buffer as it is at that moment.
\<close>

definition first_of :: "'a list \<Rightarrow> 'a option" where
  "first_of xs = (case xs of [] \<Rightarrow> None | x # _ \<Rightarrow> Some x)"

definition onChanged :: "(DownloadItem \<Rightarrow> Percentage) \<Rightarrow> DownloadDelta \<Rightarrow> world \<Rightarrow> task" where
  "onChanged cp delta w0 =
     (let w1 = sendMessage Ping w0 in
      case delta_state delta of
        None \<Rightarrow> drawIcon cp w1
      | Some sd \<Rightarrow>
          if current sd = Some interrupted \<or> current sd = Some complete then
            search (ById (delta_ident delta)) (\<lambda>found w.
              let item = first_of found;
                  w2 = w\<lparr>uncheckedItems := uncheckedItems w @ [item]\<rparr>;
                  w3 = sendMessage StatusCheck w2
              in drawIcon cp w3) w1
          else drawIcon cp w1)"

definition onMessage :: "(DownloadItem \<Rightarrow> Percentage) \<Rightarrow> Message \<Rightarrow> world \<Rightarrow> task" where
  "onMessage cp message w =
     (if message = PopupOpened then drawIcon cp (w\<lparr>uncheckedItems := []\<rparr>) else Done w)"

definition onErased :: "world \<Rightarrow> task" where
  "onErased w = Done (sendMessage Ping w)"

text \<open>The constructor: no timer, nothing unseen, the icon drawn once.\<close>

definition constructor :: world where
  "constructor =
     \<lparr>timer = None, uncheckedItems = [], intervals = [], fresh = 1,
      out = [SetShelfEnabled False, Draw None None]\<rparr>"

section \<open>The percentage calculator\<close>

text \<open>
  Modelled from the spec: \<^verbatim>\<open>computePercentage\<close> (module \<^verbatim>\<open>@/common\<close>) is not in the
  source file. The spec gives: from one record, the pair (receivedBytes, totalBytes);
  a record that lacks both byte fields gives (0, 0). An absent field counts as 0.
  It instantiates the parameter \<open>cp\<close> in the examples.
\<close>

definition computePercentage :: "DownloadItem \<Rightarrow> Percentage" where
  "computePercentage d =
     \<lparr>num = (case bytesReceived d of None \<Rightarrow> 0 | Some b \<Rightarrow> b),
      den = (case fileSize d of None \<Rightarrow> 0 | Some s \<Rightarrow> s)\<rparr>"

section \<open>Notions used to state the properties\<close>

text \<open>The error code begins with \<^verbatim>\<open>USER_\<close>. A record with no error code has no such code.\<close>

definition user_error :: "DownloadItem \<Rightarrow> bool" where
  "user_error d = (case error d of None \<Rightarrow> False | Some e \<Rightarrow> prefix ''USER_'' e)"

text \<open>The colour policy as a first-match list of rules over genuine records.\<close>

definition summary_color :: "DownloadItem list \<Rightarrow> DownloadItem list \<Rightarrow> Color" where
  "summary_color us active =
     (if list_ex (\<lambda>d. state d = interrupted \<and> \<not> user_error d) us then Error
      else if list_ex paused active then Paused
      else if list_ex (\<lambda>d. state d = complete) us then Complete
      else Normal)"

text \<open>The members of the union that the reduce does not skip, in order.\<close>

fun included :: "DownloadItem option list \<Rightarrow> DownloadItem list" where
  "included [] = []"
| "included (None # ms) = included ms"
| "included (Some d # ms) = (if skipped (Some d) then included ms else d # included ms)"

text \<open>The second argument of the draw request: none when nothing is active.\<close>

definition fraction ::
  "(DownloadItem \<Rightarrow> Percentage) \<Rightarrow> DownloadItem option list \<Rightarrow> DownloadItem list \<Rightarrow> number option" where
  "fraction cp us active =
     (if active = [] then None
      else Some (divide_js (num (total cp (us @ map Some active)))
                           (den (total cp (us @ map Some active)))))"

text \<open>A record that has neither byte field.\<close>

definition lacks_both :: "DownloadItem \<Rightarrow> bool" where
  "lacks_both d = (bytesReceived d = None \<and> fileSize d = None)"

text \<open>A fraction that is omitted or is a finite number.\<close>

definition defined_fraction :: "number option \<Rightarrow> bool" where
  "defined_fraction x = (case x of None \<Rightarrow> True | Some (Finite q) \<Rightarrow> True | Some _ \<Rightarrow> False)"

text \<open>The delta has a state field whose new value is \<^verbatim>\<open>interrupted\<close> or \<^verbatim>\<open>complete\<close>.\<close>

definition terminal_delta :: "DownloadDelta \<Rightarrow> bool" where
  "terminal_delta delta =
     (case delta_state delta of
        None \<Rightarrow> False
      | Some sd \<Rightarrow> current sd = Some interrupted \<or> current sd = Some complete)"

text \<open>The effect is a request to draw the icon.\<close>

definition is_draw :: "effect \<Rightarrow> bool" where
  "is_draw e = (case e of Draw c x \<Rightarrow> True | _ \<Rightarrow> False)"

text \<open>A state in which a download is no longer active.\<close>

definition terminal :: "State \<Rightarrow> bool" where
  "terminal s = (s = interrupted \<or> s = complete)"

text \<open>Every element of the buffer is a record, and its state is terminal.\<close>

definition buffer_invariant :: "world \<Rightarrow> bool" where
  "buffer_invariant w =
     list_all (\<lambda>x. case x of None \<Rightarrow> False | Some d \<Rightarrow> terminal (state d)) (uncheckedItems w)"

subsection \<open>Example inputs\<close>

text \<open>Download A of the spec's end-to-end example: active, 50 of 100 bytes.\<close>

definition downloadA :: DownloadItem where
  "downloadA = \<lparr>ident = 1, state = in_progress, paused = False, error = None,
     bytesReceived = Some 50, fileSize = Some 100\<rparr>"

text \<open>Download B of the same example: complete, 100 of 100 bytes.\<close>

definition downloadB :: DownloadItem where
  "downloadB = \<lparr>ident = 7, state = complete, paused = False, error = None,
     bytesReceived = Some 100, fileSize = Some 100\<rparr>"

definition cancelled :: DownloadItem where
  "cancelled = \<lparr>ident = 3, state = interrupted, paused = False, error = Some ''USER_CANCELED'',
     bytesReceived = Some 10, fileSize = Some 100\<rparr>"

definition failed :: DownloadItem where
  "failed = \<lparr>ident = 4, state = interrupted, paused = False, error = Some ''NETWORK_FAILED'',
     bytesReceived = Some 10, fileSize = Some 100\<rparr>"

definition pausedItem :: DownloadItem where
  "pausedItem = \<lparr>ident = 5, state = in_progress, paused = True, error = None,
     bytesReceived = Some 10, fileSize = Some 100\<rparr>"

text \<open>An active download with neither byte field.\<close>

definition unsized :: DownloadItem where
  "unsized = \<lparr>ident = 6, state = in_progress, paused = False, error = None,
     bytesReceived = None, fileSize = None\<rparr>"

text \<open>An active download with a size and no \<^verbatim>\<open>bytesReceived\<close>.\<close>

definition noReceived :: DownloadItem where
  "noReceived = \<lparr>ident = 8, state = in_progress, paused = False, error = None,
     bytesReceived = None, fileSize = Some 100\<rparr>"

text \<open>An active download with a size that has received nothing yet.\<close>

definition notStarted :: DownloadItem where
  "notStarted = \<lparr>ident = 9, state = in_progress, paused = False, error = None,
     bytesReceived = Some 0, fileSize = Some 100\<rparr>"

text \<open>Download 7 went from \<^verbatim>\<open>in_progress\<close> to \<^verbatim>\<open>complete\<close>.\<close>

definition completed7 :: DownloadDelta where
  "completed7 = \<lparr>delta_ident = 7,
     delta_state = Some \<lparr>current = Some complete, previous = Some in_progress\<rparr>\<rparr>"

text \<open>A change of download 7 that is not a change of state.\<close>

definition other7 :: DownloadDelta where
  "other7 = \<lparr>delta_ident = 7, delta_state = None\<rparr>"

text \<open>
  \<^verbatim>\<open>start\<close> is called twice while the manager is idle, the second time before the
  query of the first has resolved. Both queries find download A; each call then runs
  its first tick, which finds A and redraws the icon. No method is left suspended.
\<close>

definition overlappingStarts :: "event list" where
  "overlappingStarts =
     [Call (start computePercentage), Call (start computePercentage),
      Resolve 0 [downloadA], Resolve 0 [downloadA],
      Resolve 0 [downloadA], Resolve 0 [downloadA],
      Resolve 0 [downloadA], Resolve 0 [downloadA]]"

text \<open>The manager with its timer running.\<close>

definition running :: world where
  "running = constructor\<lparr>timer := Some 1, intervals := [1], fresh := 2\<rparr>"

text \<open>The manager with one failed download unseen.\<close>

definition unseenFailure :: world where
  "unseenFailure = constructor\<lparr>uncheckedItems := [Some failed]\<rparr>"

text \<open>The manager with download B unseen.\<close>

definition unseenB :: world where
  "unseenB = constructor\<lparr>uncheckedItems := [Some downloadB]\<rparr>"

section \<open>Evaluation\<close>

lemmas run_defs =
  onChanged_def onCreated_def onMessage_def onErased_def start_def tick_def stop_def drawIcon_def
  search_def emit_def sendMessage_def setInterval_def clearInterval_def first_of_def
  color_def errored_def succeeded_def total_def accumulate_def skipped_def truthy_def
  divide_js_def computePercentage_def constructor_def Let_def

lemmas example_defs =
  downloadA_def downloadB_def cancelled_def failed_def pausedItem_def unsized_def noReceived_def
  notStarted_def
  completed7_def other7_def running_def unseenFailure_def unseenB_def

text \<open>
  The spec's end-to-end example: A active with 50 of 100 bytes, B complete and unseen
  with 100 of 100 bytes. The icon is drawn in the Complete colour with 3/4.
\<close>

lemma end_to_end:
  "exec [Call (drawIcon computePercentage), Resolve 0 [downloadA]] (unseenB, []) =
     (unseenB\<lparr>out := out unseenB @ [Query (ByState in_progress),
                                     Draw (Some Complete) (Some (Finite (3 / 4)))]\<rparr>, [])"
  by (simp add: run_defs example_defs)

section \<open>The colour policy\<close>

lemma array_some_records:
  "array_some (\<lambda>x. case x of None \<Rightarrow> Inl e | Some d \<Rightarrow> Inr (P d)) (map Some us) =
     Inr (list_ex P us)"
  by (induction us) (simp_all split: bool.splits)

lemma array_some_errored:
  "array_some errored (map Some us) =
     Inr (list_ex (\<lambda>d. state d = interrupted \<and> \<not> user_error d) us)"
proof -
  have h: "errored = (\<lambda>x. case x of None \<Rightarrow> Inl TypeError
                        | Some d \<Rightarrow> Inr (state d = interrupted \<and> \<not> user_error d))"
    by (rule ext) (simp add: errored_def user_error_def split: option.splits)
  show ?thesis
    unfolding h by (rule array_some_records)
qed

lemma array_some_succeeded:
  "array_some succeeded (map Some us) = Inr (list_ex (\<lambda>d. state d = complete) us)"
proof -
  have h: "succeeded = (\<lambda>x. case x of None \<Rightarrow> Inl TypeError | Some d \<Rightarrow> Inr (state d = complete))"
    by (rule ext) (simp add: succeeded_def)
  show ?thesis
    unfolding h by (rule array_some_records)
qed

lemma color_records: "color (map Some us) active = Inr (summary_color us active)"
  by (simp add: color_def summary_color_def array_some_errored array_some_succeeded)

text \<open>An \<^verbatim>\<open>undefined\<close> element makes the colour computation throw, unless an earlier
  element already decides for the Error colour.\<close>

lemma array_some_undefined:
  "\<not> list_ex (\<lambda>d. state d = interrupted \<and> \<not> user_error d) us \<Longrightarrow>
     array_some errored (map Some us @ None # rest) = Inl TypeError"
  by (induction us) (auto simp add: errored_def user_error_def split: bool.splits)

lemma color_undefined:
  "\<not> list_ex (\<lambda>d. state d = interrupted \<and> \<not> user_error d) us \<Longrightarrow>
     color (map Some us @ None # rest) active = Inl TypeError"
  by (simp add: color_def array_some_undefined)

text \<open>
  Claim C1. For every buffer of unseen records and every list of active downloads the
  colour is chosen by first match: Error if some unseen record is interrupted with an
  error code that does not begin with \<^verbatim>\<open>USER_\<close> (a record with no error code at all
  counts as such); otherwise Paused if some active record is paused; otherwise Complete
  if some unseen record is complete; otherwise Normal. When every interrupted unseen
  record has a \<^verbatim>\<open>USER_\<close> error code, the colour is not Error.
\<close>

theorem color_priority:
  "color (map Some us) active =
     Inr (if list_ex (\<lambda>d. state d = interrupted \<and> \<not> user_error d) us then Error
          else if list_ex paused active then Paused
          else if list_ex (\<lambda>d. state d = complete) us then Complete
          else Normal)
   \<and> (list_all (\<lambda>d. state d = interrupted \<longrightarrow> user_error d) us \<longrightarrow>
        color (map Some us) active \<noteq> Inr Error)"
  by (auto simp add: color_records summary_color_def list_ex_iff list_all_iff)

theorem color_priority_witness:
  "color (map Some [cancelled]) [pausedItem] = Inr Paused
   \<and> list_all (\<lambda>d. state d = interrupted \<longrightarrow> user_error d) [cancelled]
   \<and> color (map Some [cancelled]) [pausedItem] \<noteq> Inr Error"
  using color_priority [where us = "[cancelled]" and active = "[pausedItem]"]
  by (simp add: cancelled_def pausedItem_def user_error_def)

text \<open>The spec's priority example: a failed unseen record beats a paused active one.\<close>

lemma error_beats_paused: "color (map Some [failed]) [pausedItem] = Inr Error"
  using color_records [of "[failed]" "[pausedItem]"]
  by (simp add: summary_color_def failed_def pausedItem_def user_error_def)

section \<open>The aggregate\<close>

lemma accumulate_None: "accumulate cp acc None = acc"
  by (simp add: accumulate_def)

lemma accumulate_Some:
  "accumulate cp acc (Some d) =
     (if skipped (Some d) then acc
      else \<lparr>num = num acc + num (cp d), den = den acc + den (cp d)\<rparr>)"
  by (simp add: accumulate_def)

lemma foldl_accumulate:
  "foldl (accumulate cp) acc ms =
     \<lparr>num = num acc + sum_list (map (\<lambda>d. num (cp d)) (included ms)),
      den = den acc + sum_list (map (\<lambda>d. den (cp d)) (included ms))\<rparr>"
proof (induction ms arbitrary: acc)
  case Nil
  show ?case by simp
next
  case (Cons m ms)
  show ?case
  proof (cases m)
    case None
    then show ?thesis by (simp add: Cons.IH accumulate_None)
  next
    case (Some d)
    then show ?thesis by (simp add: Cons.IH accumulate_Some)
  qed
qed

lemma total_included:
  "total cp ms =
     \<lparr>num = sum_list (map (\<lambda>d. num (cp d)) (included ms)),
      den = sum_list (map (\<lambda>d. den (cp d)) (included ms))\<rparr>"
  by (simp add: total_def foldl_accumulate)

lemma included_all_skipped: "list_all skipped ms \<Longrightarrow> included ms = []"
  by (induction ms rule: included.induct) simp_all

text \<open>
  Claim C2, as stated: a member of the union is left out of both sums exactly when it
  lacks both \<^verbatim>\<open>bytesReceived\<close> and \<^verbatim>\<open>fileSize\<close>. It fails for a download that has a size
  and no \<^verbatim>\<open>bytesReceived\<close>: it does not lack both, and the reduce skips it, so its 100
  bytes of size are not in the denominator.
\<close>

theorem exclusion_counterexample:
  "skipped (Some noReceived) \<noteq> lacks_both noReceived
   \<and> total computePercentage ([] @ map Some [noReceived]) = \<lparr>num = 0, den = 0\<rparr>
   \<and> computePercentage noReceived = \<lparr>num = 0, den = 100\<rparr>"
  by (simp add: run_defs noReceived_def lacks_both_def)

text \<open>
  Claim C2, amended. The sums over the union of the buffer and the active list are the
  sums of the pairs of the members that the reduce does not skip. An \<^verbatim>\<open>undefined\<close>
  element is skipped, and so is a record with no \<^verbatim>\<open>bytesReceived\<close>, whatever its
  \<^verbatim>\<open>fileSize\<close> (in particular a record that lacks both). A record whose
  \<^verbatim>\<open>bytesReceived\<close> is not zero is not skipped: it adds its pair to the sums.
\<close>

theorem aggregate_members:
  "total cp (us @ map Some active) =
     \<lparr>num = sum_list (map (\<lambda>d. num (cp d)) (included (us @ map Some active))),
      den = sum_list (map (\<lambda>d. den (cp d)) (included (us @ map Some active)))\<rparr>
   \<and> skipped None
   \<and> (bytesReceived d1 = None \<longrightarrow> skipped (Some d1))
   \<and> (bytesReceived d2 = Some b \<and> b \<noteq> 0 \<longrightarrow> \<not> skipped (Some d2))"
  by (simp add: total_included skipped_def truthy_def)

theorem aggregate_members_witness:
  "total computePercentage ([Some downloadB] @ map Some [downloadA]) = \<lparr>num = 150, den = 200\<rparr>
   \<and> bytesReceived noReceived = None \<and> skipped (Some noReceived)
   \<and> bytesReceived downloadA = Some 50 \<and> (50::int) \<noteq> 0 \<and> \<not> skipped (Some downloadA)"
  using aggregate_members [where cp = computePercentage and us = "[Some downloadB]"
      and active = "[downloadA]" and ?d1.0 = noReceived and ?d2.0 = downloadA and b = 50]
  by (simp add: example_defs computePercentage_def skipped_def truthy_def)

text \<open>
  The test of the reduce is a test for a falsy value, so a download that has a size and
  has received zero bytes is skipped as well: its size is not in the denominator.
\<close>

lemma zero_received_skipped:
  "skipped (Some notStarted) \<and> \<not> lacks_both notStarted
   \<and> total computePercentage ([] @ map Some [notStarted, downloadA]) = \<lparr>num = 50, den = 100\<rparr>"
  by (simp add: run_defs notStarted_def downloadA_def lacks_both_def)

section \<open>Redrawing the icon\<close>

text \<open>
  When the query of \<^verbatim>\<open>drawIcon\<close> resolves and the buffer holds records only, the icon
  is drawn; when the colour computation throws, nothing is drawn.
\<close>

lemma resolve_drawIcon:
  assumes "uncheckedItems w = map Some us"
  shows "step (Resolve 0 active) (settle (drawIcon cp w) []) =
           (w\<lparr>out := out w @ [Query (ByState in_progress),
                               Draw (Some (summary_color us active))
                                    (fraction cp (map Some us) active)]\<rparr>, [])"
  using assms
  by (simp add: drawIcon_def search_def emit_def color_records fraction_def Let_def)

lemma resolve_drawIcon_throws:
  assumes "color (uncheckedItems w) active = Inl e"
  shows "step (Resolve 0 active) (settle (drawIcon cp w) []) =
           (w\<lparr>out := out w @ [Query (ByState in_progress), Rejected e]\<rparr>, [])"
  using assms
  by (simp add: drawIcon_def search_def emit_def)

text \<open>
  Claim C4, as stated: with a non-empty active list and every member of the union
  excluded, the draw request still carries a defined fraction. It fails for one active
  download that has neither byte field: both sums are zero, and the request carries
  \<^verbatim>\<open>0 / 0\<close>, which is NaN.
\<close>

theorem zero_denominator_counterexample:
  "out (fst (exec [Call (drawIcon computePercentage), Resolve 0 [unsized]] (constructor, []))) =
     out constructor @ [Query (ByState in_progress), Draw (Some Normal) (Some NaN)]
   \<and> \<not> defined_fraction (Some NaN)"
  by (simp add: run_defs unsized_def defined_fraction_def)

text \<open>
  Claim C4, amended. When the active list is not empty at redraw time and the reduce
  skips every member of the union of buffer and active list, both sums are zero and the
  draw request carries the quotient \<^verbatim>\<open>0 / 0\<close> as it is, the value NaN, with the colour of
  the colour policy: no fallback value is put in its place and the fraction is not
  omitted.
\<close>

theorem drawIcon_zero_denominator:
  assumes "uncheckedItems w = map Some us" and "active \<noteq> []"
    and "list_all skipped (map Some (us @ active))"
  shows "exec [Call (drawIcon cp), Resolve 0 active] (w, []) =
           (w\<lparr>out := out w @ [Query (ByState in_progress),
                               Draw (Some (summary_color us active)) (Some NaN)]\<rparr>, [])"
proof -
  have "included (map Some us @ map Some active) = []"
    using assms(3) by (simp add: included_all_skipped)
  then have "total cp (map Some us @ map Some active) = \<lparr>num = 0, den = 0\<rparr>"
    by (simp add: total_included)
  then have "fraction cp (map Some us) active = Some NaN"
    using assms(2) by (simp add: fraction_def divide_js_def)
  then show ?thesis
    using resolve_drawIcon [OF assms(1), of active cp] by simp
qed

theorem drawIcon_zero_denominator_witness:
  "uncheckedItems constructor = map Some [] \<and> [unsized] \<noteq> []
   \<and> list_all skipped (map Some ([] @ [unsized]))
   \<and> exec [Call (drawIcon computePercentage), Resolve 0 [unsized]] (constructor, []) =
       (constructor\<lparr>out := out constructor @
          [Query (ByState in_progress), Draw (Some Normal) (Some NaN)]\<rparr>, [])"
proof -
  have h1: "uncheckedItems constructor = map Some []"
    by (simp add: constructor_def)
  have h2: "[unsized] \<noteq> []"
    by simp
  have h3: "list_all skipped (map Some ([] @ [unsized]))"
    by (simp add: skipped_def truthy_def unsized_def)
  show ?thesis
    using h1 h2 h3 drawIcon_zero_denominator [OF h1 h2 h3, where cp = computePercentage]
    by (simp add: summary_color_def unsized_def)
qed

text \<open>
  Claim C10. When the active list is empty at redraw time and the buffer holds the
  unseen records \<open>us\<close>, the draw request carries the colour of the colour policy and no
  fraction, whether or not the buffer is empty. With no active download and an empty
  buffer the request is the Normal colour with no fraction.
\<close>

theorem drawIcon_no_active:
  assumes "uncheckedItems w = map Some us"
  shows "exec [Call (drawIcon cp), Resolve 0 []] (w, []) =
           (w\<lparr>out := out w @ [Query (ByState in_progress),
                               Draw (Some (summary_color us [])) None]\<rparr>, [])
         \<and> (us = [] \<longrightarrow>
              exec [Call (drawIcon cp), Resolve 0 []] (w, []) =
                (w\<lparr>out := out w @ [Query (ByState in_progress), Draw (Some Normal) None]\<rparr>, []))"
  using resolve_drawIcon [OF assms, of "[]" cp]
  by (simp add: fraction_def summary_color_def)

theorem drawIcon_no_active_witness:
  "uncheckedItems unseenB = map Some [downloadB]
   \<and> exec [Call (drawIcon computePercentage), Resolve 0 []] (unseenB, []) =
       (unseenB\<lparr>out := out unseenB @ [Query (ByState in_progress), Draw (Some Complete) None]\<rparr>, [])
   \<and> uncheckedItems constructor = map Some []
   \<and> exec [Call (drawIcon computePercentage), Resolve 0 []] (constructor, []) =
       (constructor\<lparr>out := out constructor @
          [Query (ByState in_progress), Draw (Some Normal) None]\<rparr>, [])"
proof -
  have h1: "uncheckedItems unseenB = map Some [downloadB]"
    by (simp add: unseenB_def)
  have h2: "uncheckedItems constructor = map Some []"
    by (simp add: constructor_def)
  show ?thesis
    using h1 h2 drawIcon_no_active [OF h1, where cp = computePercentage]
      drawIcon_no_active [OF h2, where cp = computePercentage]
    by (simp add: summary_color_def downloadB_def user_error_def)
qed

section \<open>The change handler\<close>

lemma call_onChanged_terminal:
  assumes "terminal_delta delta"
  shows "step (Resolve 0 found) (step (Call (onChanged cp delta)) (w, [])) =
           settle (drawIcon cp (w\<lparr>uncheckedItems := uncheckedItems w @ [first_of found],
                   out := out w @ [SendMessage Ping, Query (ById (delta_ident delta)),
                                   SendMessage StatusCheck]\<rparr>)) []"
  using assms
  by (auto simp add: terminal_delta_def onChanged_def sendMessage_def emit_def search_def Let_def
      split: option.splits)

lemma call_onChanged_other:
  assumes "\<not> terminal_delta delta"
  shows "step (Call (onChanged cp delta)) (w, []) =
           settle (drawIcon cp (w\<lparr>out := out w @ [SendMessage Ping]\<rparr>)) []"
  using assms
  by (auto simp add: terminal_delta_def onChanged_def sendMessage_def emit_def Let_def
      split: option.splits)

text \<open>
  A query by id that finds nothing, on a buffer of records none of which gives the Error
  colour: \<^verbatim>\<open>undefined\<close> is appended, the status check is sent, and the redraw throws.
\<close>

lemma onChanged_miss_throws:
  assumes "terminal_delta delta" and "uncheckedItems w = map Some us"
    and "\<not> list_ex (\<lambda>d. state d = interrupted \<and> \<not> user_error d) us"
  shows "exec [Call (onChanged cp delta), Resolve 0 [], Resolve 0 active] (w, []) =
           (w\<lparr>uncheckedItems := map Some us @ [None],
              out := out w @ [SendMessage Ping, Query (ById (delta_ident delta)),
                              SendMessage StatusCheck, Query (ByState in_progress),
                              Rejected TypeError]\<rparr>, [])"
proof -
  let ?w = "w\<lparr>uncheckedItems := uncheckedItems w @ [first_of []],
               out := out w @ [SendMessage Ping, Query (ById (delta_ident delta)),
                               SendMessage StatusCheck]\<rparr>"
  have "color (uncheckedItems ?w) active = Inl TypeError"
    using assms(2) color_undefined [OF assms(3), of "[]" active] by (simp add: first_of_def)
  then show ?thesis
    using call_onChanged_terminal [OF assms(1), of "[]" cp w]
      resolve_drawIcon_throws [of ?w active TypeError cp] assms(2)
    by (simp add: first_of_def)
qed

text \<open>
  Claim C3, evaluated where the code departs from it. Download 7 completes and the
  query by id finds nothing. The claim: the handler does nothing further, the buffer is
  unchanged and no error is raised. The code: \<^verbatim>\<open>undefined\<close> is pushed to the buffer, the
  status check is sent, and \<^verbatim>\<open>drawIcon\<close> throws a TypeError when it reads the state of
  the \<^verbatim>\<open>undefined\<close> element, so the icon is not redrawn.
\<close>

theorem onChanged_lookup_miss:
  "exec [Call (onChanged computePercentage completed7), Resolve 0 [], Resolve 0 []]
        (constructor, []) =
     (constructor\<lparr>uncheckedItems := [None],
        out := out constructor @ [SendMessage Ping, Query (ById 7), SendMessage StatusCheck,
                                  Query (ByState in_progress), Rejected TypeError]\<rparr>, [])"
  by (simp add: run_defs completed7_def)

text \<open>
  Claim C5, evaluated where the code departs from it. Download 7 completes while
  download A is active, and the query by id finds nothing. The claim: for every change
  event the full record is appended to the buffer and the handler always ends by
  redrawing the icon. The code: what is appended is \<^verbatim>\<open>undefined\<close>, not a record, and
  \<^verbatim>\<open>drawIcon\<close> throws a TypeError on it, so the handler ends in a rejected promise and
  requests no drawing at all.
\<close>

theorem onChanged_miss_no_redraw:
  "exec [Call (onChanged computePercentage completed7), Resolve 0 [], Resolve 0 [downloadA]]
        (constructor, []) =
     (constructor\<lparr>uncheckedItems := [None],
        out := out constructor @ [SendMessage Ping, Query (ById 7), SendMessage StatusCheck,
                                  Query (ByState in_progress), Rejected TypeError]\<rparr>, [])
   \<and> \<not> list_ex is_draw
        (drop (length (out constructor))
           (out (fst (exec [Call (onChanged computePercentage completed7), Resolve 0 [],
                            Resolve 0 [downloadA]] (constructor, [])))))"
  by (simp add: run_defs completed7_def downloadA_def is_draw_def)

text \<open>
  Where the change handler does what is said of it: the buffer holds records only, no
  other handler runs in between, and the query by id, when it is made, finds a record.
  The refresh message is sent first. If the delta has a state field whose new value is
  interrupted or complete, the record is asked for by id, the record found is appended
  to the buffer, and the status check is sent; otherwise none of the three happens. In
  both cases the handler ends by querying the active downloads and drawing the icon.
\<close>

lemma onChanged_effects:
  assumes "uncheckedItems w = map Some us"
  shows "(terminal_delta delta \<longrightarrow>
            exec [Call (onChanged cp delta), Resolve 0 (item # rest), Resolve 0 active] (w, []) =
              (w\<lparr>uncheckedItems := map Some (us @ [item]),
                 out := out w @ [SendMessage Ping, Query (ById (delta_ident delta)),
                                 SendMessage StatusCheck, Query (ByState in_progress),
                                 Draw (Some (summary_color (us @ [item]) active))
                                      (fraction cp (map Some (us @ [item])) active)]\<rparr>, []))
       \<and> (\<not> terminal_delta delta \<longrightarrow>
            exec [Call (onChanged cp delta), Resolve 0 active] (w, []) =
              (w\<lparr>out := out w @ [SendMessage Ping, Query (ByState in_progress),
                                 Draw (Some (summary_color us active))
                                      (fraction cp (map Some us) active)]\<rparr>, []))"
proof (intro conjI impI)
  assume t: "terminal_delta delta"
  let ?w = "w\<lparr>uncheckedItems := uncheckedItems w @ [first_of (item # rest)],
               out := out w @ [SendMessage Ping, Query (ById (delta_ident delta)),
                               SendMessage StatusCheck]\<rparr>"
  have u: "uncheckedItems ?w = map Some (us @ [item])"
    using assms by (simp add: first_of_def)
  show "exec [Call (onChanged cp delta), Resolve 0 (item # rest), Resolve 0 active] (w, []) =
              (w\<lparr>uncheckedItems := map Some (us @ [item]),
                 out := out w @ [SendMessage Ping, Query (ById (delta_ident delta)),
                                 SendMessage StatusCheck, Query (ByState in_progress),
                                 Draw (Some (summary_color (us @ [item]) active))
                                      (fraction cp (map Some (us @ [item])) active)]\<rparr>, [])"
    using call_onChanged_terminal [OF t, of "item # rest" cp w]
      resolve_drawIcon [OF u, of active cp] assms
    by (simp add: first_of_def)
next
  assume t: "\<not> terminal_delta delta"
  let ?w = "w\<lparr>out := out w @ [SendMessage Ping]\<rparr>"
  have u: "uncheckedItems ?w = map Some us"
    using assms by simp
  show "exec [Call (onChanged cp delta), Resolve 0 active] (w, []) =
              (w\<lparr>out := out w @ [SendMessage Ping, Query (ByState in_progress),
                                 Draw (Some (summary_color us active))
                                      (fraction cp (map Some us) active)]\<rparr>, [])"
    using call_onChanged_other [OF t, of cp w] resolve_drawIcon [OF u, of active cp]
    by simp
qed

lemma onChanged_effects_example:
  "uncheckedItems constructor = map Some []
   \<and> terminal_delta completed7
   \<and> exec [Call (onChanged computePercentage completed7), Resolve 0 [downloadB],
            Resolve 0 [downloadA]] (constructor, []) =
       (constructor\<lparr>uncheckedItems := [Some downloadB],
          out := out constructor @
            [SendMessage Ping, Query (ById 7), SendMessage StatusCheck,
             Query (ByState in_progress), Draw (Some Complete) (Some (Finite (3 / 4)))]\<rparr>, [])
   \<and> \<not> terminal_delta other7
   \<and> exec [Call (onChanged computePercentage other7), Resolve 0 [downloadA]] (constructor, []) =
       (constructor\<lparr>out := out constructor @
            [SendMessage Ping, Query (ByState in_progress),
             Draw (Some Normal) (Some (Finite (1 / 2)))]\<rparr>, [])"
proof -
  have h: "uncheckedItems constructor = map Some []"
    by (simp add: constructor_def)
  show ?thesis
    using h
      onChanged_effects [OF h, where cp = computePercentage and delta = completed7
        and item = downloadB and rest = "[]" and active = "[downloadA]"]
      onChanged_effects [OF h, where cp = computePercentage and delta = other7
        and active = "[downloadA]"]
    by (simp add: terminal_delta_def completed7_def other7_def summary_color_def fraction_def
        total_def accumulate_def skipped_def truthy_def divide_js_def computePercentage_def
        downloadA_def downloadB_def user_error_def)
qed

text \<open>
  Claim C6, evaluated where the code departs from it. The buffer holds the complete
  download B, so the invariant holds. Download 7 completes and the query by id finds
  nothing. The claim: no handler stores a missing record. The code: the change handler
  appends \<^verbatim>\<open>undefined\<close>, and the invariant no longer holds.
\<close>

theorem buffer_invariant_broken:
  "buffer_invariant unseenB
   \<and> uncheckedItems (fst (exec [Call (onChanged computePercentage completed7), Resolve 0 []]
                            (unseenB, []))) = [Some downloadB, None]
   \<and> \<not> buffer_invariant (fst (exec [Call (onChanged computePercentage completed7), Resolve 0 []]
                                 (unseenB, [])))"
  by (simp add: run_defs completed7_def downloadB_def unseenB_def buffer_invariant_def terminal_def)

text \<open>
  Where the invariant of the buffer is kept: the query by id finds a record whose state
  is terminal.
\<close>

lemma buffer_invariant_found:
  assumes "buffer_invariant w" and "terminal_delta delta" and "terminal (state item)"
  shows "buffer_invariant
           (fst (exec [Call (onChanged cp delta), Resolve 0 (item # rest)] (w, [])))"
  using assms call_onChanged_terminal [OF assms(2), of "item # rest" cp w]
  by (simp add: buffer_invariant_def first_of_def drawIcon_def search_def emit_def)

section \<open>The timer\<close>

text \<open>Starting while the timer runs does nothing.\<close>

lemma start_running: "timer w \<noteq> None \<Longrightarrow> step (Call (start cp)) (w, ps) = (w, ps)"
  by (simp add: start_def)

text \<open>Starting while idle creates no timer when no download is active.\<close>

lemma start_idle_empty:
  "timer w = None \<Longrightarrow>
     exec [Call (start cp), Resolve 0 []] (w, []) =
       (w\<lparr>out := out w @ [Query (ByState in_progress)]\<rparr>, [])"
  by (simp add: start_def search_def emit_def)

text \<open>Starting while idle creates one timer when a download is active, and ticks once.\<close>

lemma start_idle_active:
  "timer w = None \<Longrightarrow> active \<noteq> [] \<Longrightarrow>
     fst (exec [Call (start cp), Resolve 0 active] (w, [])) =
       w\<lparr>timer := Some (fresh w), intervals := intervals w @ [fresh w], fresh := Suc (fresh w),
         out := out w @ [Query (ByState in_progress), Log ''Timer started'',
                         Query (ByState in_progress)]\<rparr>"
  by (simp add: start_def tick_def search_def emit_def setInterval_def Let_def)

text \<open>
  Claim C7, evaluated where the code departs from it. \<^verbatim>\<open>start\<close> is called twice while
  the manager is idle, the second time before the query of the first has resolved;
  both queries find the active download A. The claim: at most one timer exists at any
  time. The code: the test of \<^verbatim>\<open>this.timer\<close> comes before the \<^verbatim>\<open>await\<close> and the
  assignment after it, so both calls pass the test and each creates an interval: the
  intervals 1 and 2 are live and the field holds 2. When later ticks find no active
  download, \<^verbatim>\<open>stop\<close> clears interval 2 only: the manager is idle and interval 1 is still
  live.
\<close>

theorem start_overlapping:
  "intervals (fst (exec [Call (start computePercentage), Call (start computePercentage),
                         Resolve 0 [downloadA], Resolve 0 [downloadA]] (constructor, []))) = [1, 2]
   \<and> timer (fst (exec [Call (start computePercentage), Call (start computePercentage),
                       Resolve 0 [downloadA], Resolve 0 [downloadA]] (constructor, []))) = Some 2
   \<and> intervals (fst (exec [Call (start computePercentage), Call (start computePercentage),
                           Resolve 0 [downloadA], Resolve 0 [downloadA],
                           Resolve 0 [], Resolve 0 []] (constructor, []))) = [1]
   \<and> timer (fst (exec [Call (start computePercentage), Call (start computePercentage),
                       Resolve 0 [downloadA], Resolve 0 [downloadA],
                       Resolve 0 [], Resolve 0 []] (constructor, []))) = None"
  by (simp add: run_defs downloadA_def)

lemma resolve_tick_empty:
  "step (Resolve 0 []) (step (Call (tick cp)) (w, [])) =
     (stop (w\<lparr>out := out w @ [Query (ByState in_progress)]\<rparr>), [])"
  by (simp add: tick_def search_def emit_def)

lemma resolve_tick_active:
  assumes "active \<noteq> []"
  shows "step (Resolve 0 active) (step (Call (tick cp)) (w, [])) =
     settle (drawIcon cp (w\<lparr>out := out w @ [Query (ByState in_progress), SendMessage Ping]\<rparr>)) []"
  using assms by (simp add: tick_def search_def emit_def sendMessage_def)

text \<open>
  Claim C8, evaluated where the code departs from it. After the two overlapping calls of
  \<^verbatim>\<open>start\<close> the field holds interval 2, the intervals 1 and 2 are live, and no method
  is suspended. The next tick finds no active download. The claim: the handle is
  released and no further tick occurs until a new start. The code: \<^verbatim>\<open>stop\<close> clears the
  interval of the field only, so the manager is idle and interval 1 is still live; it
  fires again, and the tick it runs finds the field empty and clears nothing.
\<close>

theorem tick_leaves_interval:
  "timer (fst (exec overlappingStarts (constructor, []))) = Some 2
   \<and> intervals (fst (exec overlappingStarts (constructor, []))) = [1, 2]
   \<and> snd (exec overlappingStarts (constructor, [])) = []
   \<and> timer (fst (exec (overlappingStarts @ [Call (tick computePercentage), Resolve 0 []])
                      (constructor, []))) = None
   \<and> intervals (fst (exec (overlappingStarts @ [Call (tick computePercentage), Resolve 0 []])
                          (constructor, []))) = [1]
   \<and> intervals (fst (exec (overlappingStarts @ [Call (tick computePercentage), Resolve 0 [],
                                                  Call (tick computePercentage), Resolve 0 []])
                          (constructor, []))) = [1]"
  by (simp add: overlappingStarts_def run_defs downloadA_def)

text \<open>
  Where a tick does what is said of it, with no other handler in between. If its query
  finds no active download while the field holds the handle \<open>h\<close>, the field is set to
  none and the interval \<open>h\<close>, and no other, is cleared. If its query finds an active
  download and the buffer holds records only, the refresh message is sent, the icon is
  redrawn, and the timer field and the live intervals are as before.
\<close>

lemma tick_sequential:
  "(timer w = Some h \<longrightarrow>
      exec [Call (tick cp), Resolve 0 []] (w, []) =
        (w\<lparr>timer := None, intervals := removeAll h (intervals w),
           out := out w @ [Query (ByState in_progress), Log ''Timer stopped'']\<rparr>, []))
   \<and> (uncheckedItems w = map Some us \<and> active \<noteq> [] \<longrightarrow>
        exec [Call (tick cp), Resolve 0 active, Resolve 0 active'] (w, []) =
          (w\<lparr>out := out w @ [Query (ByState in_progress), SendMessage Ping,
                             Query (ByState in_progress),
                             Draw (Some (summary_color us active'))
                                  (fraction cp (map Some us) active')]\<rparr>, []))"
proof (intro conjI impI)
  assume "timer w = Some h"
  then show "exec [Call (tick cp), Resolve 0 []] (w, []) =
        (w\<lparr>timer := None, intervals := removeAll h (intervals w),
           out := out w @ [Query (ByState in_progress), Log ''Timer stopped'']\<rparr>, [])"
    using resolve_tick_empty [of cp w]
    by (simp add: stop_def clearInterval_def emit_def)
next
  assume a: "uncheckedItems w = map Some us \<and> active \<noteq> []"
  let ?w = "w\<lparr>out := out w @ [Query (ByState in_progress), SendMessage Ping]\<rparr>"
  have u: "uncheckedItems ?w = map Some us"
    using a by simp
  show "exec [Call (tick cp), Resolve 0 active, Resolve 0 active'] (w, []) =
          (w\<lparr>out := out w @ [Query (ByState in_progress), SendMessage Ping,
                             Query (ByState in_progress),
                             Draw (Some (summary_color us active'))
                                  (fraction cp (map Some us) active')]\<rparr>, [])"
    using a resolve_tick_active [of active cp w] resolve_drawIcon [OF u, of active' cp]
    by simp
qed

lemma tick_sequential_example:
  "timer running = Some 1
   \<and> exec [Call (tick computePercentage), Resolve 0 []] (running, []) =
       (running\<lparr>timer := None, intervals := [],
          out := out running @ [Query (ByState in_progress), Log ''Timer stopped'']\<rparr>, [])
   \<and> uncheckedItems running = map Some [] \<and> [downloadA] \<noteq> []
   \<and> exec [Call (tick computePercentage), Resolve 0 [downloadA], Resolve 0 [downloadA]]
          (running, []) =
       (running\<lparr>out := out running @
          [Query (ByState in_progress), SendMessage Ping, Query (ByState in_progress),
           Draw (Some Normal) (Some (Finite (1 / 2)))]\<rparr>, [])"
  using tick_sequential [where w = running and h = 1 and cp = computePercentage
      and us = "[]" and active = "[downloadA]" and active' = "[downloadA]"]
  by (simp add: running_def constructor_def summary_color_def fraction_def
      total_def accumulate_def skipped_def truthy_def divide_js_def computePercentage_def
      downloadA_def)

section \<open>Messages from the popup\<close>

text \<open>
  Claim C9. On the message PopupOpened, handled with no other handler in between, the
  buffer is emptied and the icon is redrawn; the colour of that redraw does not depend
  on the records that were unseen: it is Paused if an active download is paused and
  Normal otherwise. On any other message the handler changes nothing: the world is as
  before (buffer, timer, intervals, effects) and no method is suspended.
\<close>

theorem onMessage_behaviour:
  "exec [Call (onMessage cp PopupOpened), Resolve 0 active] (w, []) =
     (w\<lparr>uncheckedItems := [],
        out := out w @ [Query (ByState in_progress),
                        Draw (Some (if list_ex paused active then Paused else Normal))
                             (fraction cp [] active)]\<rparr>, [])
   \<and> (m \<noteq> PopupOpened \<longrightarrow> step (Call (onMessage cp m)) (w, ps) = (w, ps))"
proof -
  let ?w = "w\<lparr>uncheckedItems := []\<rparr>"
  have u: "uncheckedItems ?w = map Some []"
    by simp
  show ?thesis
    using resolve_drawIcon [OF u, of active cp]
    by (simp add: onMessage_def summary_color_def)
qed

theorem onMessage_behaviour_witness:
  "exec [Call (onMessage computePercentage PopupOpened), Resolve 0 []] (unseenFailure, []) =
     (unseenFailure\<lparr>uncheckedItems := [],
        out := out unseenFailure @ [Query (ByState in_progress), Draw (Some Normal) None]\<rparr>, [])
   \<and> StatusCheck \<noteq> PopupOpened
   \<and> step (Call (onMessage computePercentage StatusCheck)) (unseenFailure, []) =
       (unseenFailure, [])"
  using onMessage_behaviour [where cp = computePercentage and active = "[]"
      and w = unseenFailure and m = StatusCheck and ps = "[]"]
  by (simp add: fraction_def)

end
